theory Spec2Isabelle
  imports Complex_Main "HOL-Library.AList"
begin

section \<open>MegaParse: reconciling OCR text lines with layout regions\<close>

text \<open>
  A shallow embedding of \<^verbatim>\<open>DoctrParser._get_block_cls\<close> and
  \<^verbatim>\<open>DoctrParser.__to_elements_list\<close> of
  \<^verbatim>\<open>megaparse/parser/doctr_parser.py\<close>.

  Conventions of the embedding:
  \<^item> the value of a coordinate is a real number, so rounding is not modelled; each
    number of the matcher also records whether it is a Python number or a numpy scalar,
    because a division by zero raises for the former and yields \<^verbatim>\<open>nan\<close> or
    \<^verbatim>\<open>inf\<close> for the latter;
  \<^item> every \<^verbatim>\<open>raise\<close>, failed \<^verbatim>\<open>assert\<close>, failed dictionary lookup and division by
    zero is a value \<open>Inl e\<close> of the result type;
  \<^item> \<^verbatim>\<open>uuid.uuid4()\<close> draws from a supply \<open>gen :: nat \<Rightarrow> uuid\<close>; the number of
    identifiers drawn so far is threaded through as state;
  \<^item> the per-page dictionary \<^verbatim>\<open>result\<close> is an association list in insertion order,
    written with \<open>AList.update\<close>: an existing key keeps its position, a new key goes to
    the end, as in a Python \<^verbatim>\<open>dict\<close>.
\<close>

subsection \<open>Errors\<close>

datatype error =
    ValueError string
  | AssertionError string
  | ZeroDivisionError
  | KeyError int

subsection \<open>Data model\<close>

type_synonym uuid = nat

text \<open>
  \<^verbatim>\<open>Point2D\<close> and \<^verbatim>\<open>BBOX\<close> of \<^verbatim>\<open>megaparse_sdk.schema.document\<close>; the fields
  \<^verbatim>\<open>x\<close> and \<^verbatim>\<open>y\<close> are named \<open>pt_x\<close> and \<open>pt_y\<close> here.
\<close>

record Point2D =
  pt_x :: real
  pt_y :: real

record BBOX =
  top_left :: Point2D
  bottom_right :: Point2D

type_synonym coords = "real \<times> real \<times> real \<times> real"

text \<open>
  A number at run time: a Python \<^verbatim>\<open>int\<close> or \<^verbatim>\<open>float\<close> (\<open>Py\<close>), or a numpy scalar
  (\<open>Np\<close>). The coordinates of a line are what the recognised words hold; the
  coordinates that \<^verbatim>\<open>det.bbox.to_numpy()\<close> returns are numpy scalars.
\<close>

datatype num = Py real | Np real

fun val :: "num \<Rightarrow> real" where
  "val (Py r) = r"
| "val (Np r) = r"

fun is_np :: "num \<Rightarrow> bool" where
  "is_np (Py r) = False"
| "is_np (Np r) = True"

type_synonym np_coords = "num \<times> num \<times> num \<times> num"

definition vals :: "np_coords \<Rightarrow> coords" where
  "vals c = (case c of (x1, y1, x2, y2) \<Rightarrow> (val x1, val y1, val x2, val y2))"

definition python_floats :: "coords \<Rightarrow> np_coords" where
  "python_floats c = (case c of (x1, y1, x2, y2) \<Rightarrow> (Py x1, Py y1, Py x2, Py y2))"

definition numpy_scalars :: "coords \<Rightarrow> np_coords" where
  "numpy_scalars c = (case c of (x1, y1, x2, y2) \<Rightarrow> (Np x1, Np y1, Np x2, Np y2))"

text \<open>
  Arithmetic on these numbers. A difference or a product is a numpy scalar as soon as
  one operand is. The builtins \<^verbatim>\<open>max(a, b)\<close> and \<^verbatim>\<open>min(a, b)\<close> return one of
  their arguments: the first one unless the second is strictly greater (smaller), so
  \<^verbatim>\<open>max(0, v)\<close> is the Python \<^verbatim>\<open>int\<close> 0 unless \<open>v\<close> is positive.
\<close>

definition mk_num :: "bool \<Rightarrow> real \<Rightarrow> num" where
  "mk_num np r = (if np then Np r else Py r)"

definition num_sub :: "num \<Rightarrow> num \<Rightarrow> num" where
  "num_sub a b = mk_num (is_np a \<or> is_np b) (val a - val b)"

definition num_mul :: "num \<Rightarrow> num \<Rightarrow> num" where
  "num_mul a b = mk_num (is_np a \<or> is_np b) (val a * val b)"

definition py_max2 :: "num \<Rightarrow> num \<Rightarrow> num" where
  "py_max2 a b = (if val b > val a then b else a)"

definition py_min2 :: "num \<Rightarrow> num \<Rightarrow> num" where
  "py_min2 a b = (if val b < val a then b else a)"

text \<open>
  The quotient \<^verbatim>\<open>a / b\<close>. With a divisor that is zero, two Python numbers raise
  \<^verbatim>\<open>ZeroDivisionError\<close>; when one operand is a numpy scalar the quotient is
  \<^verbatim>\<open>nan\<close>, \<^verbatim>\<open>inf\<close> or \<^verbatim>\<open>-inf\<close> (with a warning) and nothing is raised.
\<close>

datatype quotient = Finite real | Nan | PosInf | NegInf

definition truediv :: "num \<Rightarrow> num \<Rightarrow> error + quotient" where
  "truediv a b =
     (if val b \<noteq> 0 then Inr (Finite (val a / val b))
      else if is_np a \<or> is_np b
      then Inr (if val a = 0 then Nan else if val a > 0 then PosInf else NegInf)
      else Inl ZeroDivisionError)"

text \<open>The comparison \<^verbatim>\<open>q > threshold\<close>; it is false for \<^verbatim>\<open>nan\<close>.\<close>

fun exceeds :: "quotient \<Rightarrow> real \<Rightarrow> bool" where
  "exceeds (Finite r) threshold = (r > threshold)"
| "exceeds Nan threshold = False"
| "exceeds PosInf threshold = True"
| "exceeds NegInf threshold = False"

definition to_numpy :: "BBOX \<Rightarrow> coords" where
  "to_numpy b =
     (pt_x (top_left b), pt_y (top_left b), pt_x (bottom_right b), pt_y (bottom_right b))"

definition mk_bbox :: "real \<Rightarrow> real \<Rightarrow> real \<Rightarrow> real \<Rightarrow> BBOX" where
  "mk_bbox x0 y0 x1 y1 =
     \<lparr>top_left = \<lparr>pt_x = x0, pt_y = y0\<rparr>, bottom_right = \<lparr>pt_x = x1, pt_y = y1\<rparr>\<rparr>"

text \<open>The block classes that \<^verbatim>\<open>block_cls_map\<close> and \<^verbatim>\<open>_get_block_cls\<close> name.\<close>

datatype block_cls =
    CaptionBlock
  | TextBlock
  | ListElementBlock
  | FooterBlock
  | HeaderBlock
  | ImageBlock
  | SubTitleBlock
  | TableBlock
  | TitleBlock
  | UndefinedBlock

definition block_cls_map :: "int \<Rightarrow> block_cls option" where
  "block_cls_map = map_of
     [(0, CaptionBlock), (1, TextBlock), (2, TextBlock), (3, ListElementBlock),
      (4, FooterBlock), (5, HeaderBlock), (6, ImageBlock), (7, SubTitleBlock),
      (8, TableBlock), (9, TextBlock), (10, TitleBlock)]"

text \<open>
  Modelled from the spec: the class hierarchy of \<^verbatim>\<open>megaparse_sdk.schema.document\<close> is
  not part of the sources at hand. The specification names image and table as the
  non-text variants; every other variant carries accumulated text. This is
  \<^verbatim>\<open>issubclass(block_cls, TextBlock)\<close>.
\<close>

fun issubclass_TextBlock :: "block_cls \<Rightarrow> bool" where
  "issubclass_TextBlock ImageBlock = False"
| "issubclass_TextBlock TableBlock = False"
| "issubclass_TextBlock _ = True"

text \<open>
  \<^verbatim>\<open>LayoutDetectionOutput\<close>: the fields \<^verbatim>\<open>bbox\<close> and \<^verbatim>\<open>label\<close> are named
  \<open>det_bbox\<close> and \<open>det_label\<close>.
\<close>

record LayoutDetectionOutput =
  bbox_id :: uuid
  det_bbox :: BBOX
  det_label :: int

text \<open>
  An output block: the class it was built with and the fields the assembly sets.
  Modelled from the spec: the constructors of the block classes are not part of the
  sources at hand; a block built without a \<^verbatim>\<open>text\<close> argument has empty text.
\<close>

record Block =
  cls :: block_cls
  block_text :: string
  bbox :: BBOX
  metadata :: "(string \<times> string) list"
  page_range :: "nat \<times> nat"

record MPDocument =
  doc_metadata :: "(string \<times> string) list"
  content :: "Block list"
  detection_origin :: string

text \<open>
  The recognised document (\<^verbatim>\<open>onnxtr.io.Document\<close>), as far as the assembly reads it:
  a word is its geometry \<open>((x0, y0), (x1, y1))\<close>, a line is its words and the string
  that \<^verbatim>\<open>line.render()\<close> returns, a block is its lines and its artefacts.
\<close>

type_synonym geometry = "(num \<times> num) \<times> (num \<times> num)"

record Line =
  words :: "geometry list"
  render :: string

record DoctrBlock =
  lines :: "Line list"
  artefacts :: "geometry list"

record DoctrPage =
  blocks :: "DoctrBlock list"

record Document =
  pages :: "DoctrPage list"

subsection \<open>The region matcher\<close>

text \<open>\<^verbatim>\<open>uuid.uuid4()\<close>: the next identifier of the supply.\<close>

definition uuid4 :: "(nat \<Rightarrow> uuid) \<Rightarrow> nat \<Rightarrow> uuid \<times> nat" where
  "uuid4 gen n = (gen n, Suc n)"

text \<open>
  The overlap of a line box with a region box, as lines 300 to 309 compute it:
  the area of the clipped intersection and the area of the line box.
\<close>

definition union_area :: "np_coords \<Rightarrow> np_coords \<Rightarrow> num" where
  "union_area c d =
     (case c of (x1, y1, x2, y2) \<Rightarrow> case d of (X1, Y1, X2, Y2) \<Rightarrow>
        let union_x1 = py_max2 x1 X1;
            union_y1 = py_max2 y1 Y1;
            union_x2 = py_min2 x2 X2;
            union_y2 = py_min2 y2 Y2;
            union_width = py_max2 (Py 0) (num_sub union_x2 union_x1);
            union_height = py_max2 (Py 0) (num_sub union_y2 union_y1)
        in num_mul union_width union_height)"

definition detection_area :: "np_coords \<Rightarrow> num" where
  "detection_area c =
     (case c of (x1, y1, x2, y2) \<Rightarrow>
        num_mul (py_max2 (Py 0) (num_sub x2 x1)) (py_max2 (Py 0) (num_sub y2 y1)))"

text \<open>
  The value of the quotient of line 311 when the line box has an area: the fraction
  of the line box that the region covers.
\<close>

definition overlap_ratio :: "np_coords \<Rightarrow> np_coords \<Rightarrow> real" where
  "overlap_ratio c d = val (union_area c d) / val (detection_area c)"

definition bbox1_valid :: "coords \<Rightarrow> bool" where
  "bbox1_valid c = (case c of (x1, y1, x2, y2) \<Rightarrow> x1 \<le> x2 \<and> y1 \<le> y2)"

text \<open>The coordinates of a region as the matcher unpacks them (line 295).\<close>

definition region_coords :: "LayoutDetectionOutput \<Rightarrow> np_coords" where
  "region_coords det = numpy_scalars (to_numpy (det_bbox det))"

text \<open>
  \<^verbatim>\<open>_get_block_cls\<close>. The loop over \<^verbatim>\<open>layout\<close> is the recursion; the two assertions,
  the division and the lookup in \<^verbatim>\<open>block_cls_map\<close> are the error branches.
\<close>

fun get_block_cls ::
  "(nat \<Rightarrow> uuid) \<Rightarrow> np_coords \<Rightarrow> LayoutDetectionOutput list \<Rightarrow> real \<Rightarrow> nat
     \<Rightarrow> error + ((uuid \<times> block_cls) \<times> nat)" where
  "get_block_cls gen coordinates [] threshold n =
     (case uuid4 gen n of (u, n') \<Rightarrow> Inr ((u, UndefinedBlock), n'))"
| "get_block_cls gen coordinates (det # layout) threshold n =
     (if \<not> bbox1_valid (vals coordinates)
      then Inl (AssertionError ''bbox1 coordinates are invalid'')
      else if \<not> bbox1_valid (vals (region_coords det))
      then Inl (AssertionError ''bbox2 coordinates are invalid'')
      else (case truediv (union_area coordinates (region_coords det))
                         (detection_area coordinates) of
              Inl e \<Rightarrow> Inl e
            | Inr q \<Rightarrow>
                if exceeds q threshold
                then (case block_cls_map (det_label det) of
                        None \<Rightarrow> Inl (KeyError (det_label det))
                      | Some c \<Rightarrow> Inr ((bbox_id det, c), n))
                else get_block_cls gen coordinates layout threshold n))"

subsection \<open>The assembly\<close>

type_synonym result = "(uuid \<times> Block) list"

text \<open>
  Python's \<^verbatim>\<open>min\<close> and \<^verbatim>\<open>max\<close> of a sequence raise on an empty one, and return
  the first of the smallest (greatest) elements otherwise.
\<close>

fun py_min :: "num list \<Rightarrow> error + num" where
  "py_min [] = Inl (ValueError ''min() arg is an empty sequence'')"
| "py_min (v # vs) = Inr (fold (\<lambda>b a. py_min2 a b) vs v)"

fun py_max :: "num list \<Rightarrow> error + num" where
  "py_max [] = Inl (ValueError ''max() arg is an empty sequence'')"
| "py_max (v # vs) = Inr (fold (\<lambda>b a. py_max2 a b) vs v)"

text \<open>Lines 332 to 336: the union box of the words of a line.\<close>

definition line_coordinates :: "Line \<Rightarrow> error + np_coords" where
  "line_coordinates line =
     (case py_min (map (\<lambda>word. fst (fst word)) (words line)) of
        Inl e \<Rightarrow> Inl e
      | Inr x0 \<Rightarrow>
     (case py_min (map (\<lambda>word. snd (fst word)) (words line)) of
        Inl e \<Rightarrow> Inl e
      | Inr y0 \<Rightarrow>
     (case py_max (map (\<lambda>word. fst (snd word)) (words line)) of
        Inl e \<Rightarrow> Inl e
      | Inr x1 \<Rightarrow>
     (case py_max (map (\<lambda>word. snd (snd word)) (words line)) of
        Inl e \<Rightarrow> Inl e
      | Inr y1 \<Rightarrow> Inr (x0, y0, x1, y1)))))"

definition newline :: string where
  "newline = [CHR 0x0A]"

text \<open>
  Lines 341 to 358: what one matched line does to the dictionary. A line whose
  identifier is a key is merged into the stored block; otherwise a block is created
  when the class is a subclass of \<^verbatim>\<open>TextBlock\<close>; otherwise nothing happens (the
  \<^verbatim>\<open>if\<close>/\<^verbatim>\<open>elif\<close> has no \<^verbatim>\<open>else\<close>).
\<close>

definition accumulate ::
  "result \<Rightarrow> uuid \<Rightarrow> block_cls \<Rightarrow> string \<Rightarrow> coords \<Rightarrow> nat \<Rightarrow> result" where
  "accumulate result block_id block_cls txt c page_number =
     (case c of (x0, y0, x1, y1) \<Rightarrow>
        (case map_of result block_id of
           Some b \<Rightarrow>
             (case to_numpy (bbox b) of (bbx0, bby0, bbx1, bby1) \<Rightarrow>
                AList.update block_id
                  (b\<lparr>block_text := block_text b @ newline @ txt,
                     bbox := mk_bbox (min x0 bbx0) (min y0 bby0) (max x1 bbx1) (max y1 bby1)\<rparr>)
                  result)
         | None \<Rightarrow>
             if issubclass_TextBlock block_cls
             then AList.update block_id
                    \<lparr>cls = block_cls, block_text = txt, bbox = mk_bbox x0 y0 x1 y1,
                     metadata = [], page_range = (page_number, page_number)\<rparr>
                    result
             else result))"

text \<open>
  The body of \<^verbatim>\<open>for line in block.lines\<close>, with the default threshold 0.6. The
  boxes of the blocks hold the values of the coordinates.
\<close>

definition line_step ::
  "(nat \<Rightarrow> uuid) \<Rightarrow> LayoutDetectionOutput list \<Rightarrow> nat \<Rightarrow> Line \<Rightarrow> result \<Rightarrow> nat
     \<Rightarrow> error + (result \<times> nat)" where
  "line_step gen layout page_number line result n =
     (case line_coordinates line of
        Inl e \<Rightarrow> Inl e
      | Inr c \<Rightarrow>
          (case get_block_cls gen c layout (6 / 10) n of
             Inl e \<Rightarrow> Inl e
           | Inr ((block_id, block_cls), n') \<Rightarrow>
               Inr (accumulate result block_id block_cls (render line) (vals c)
                      page_number, n')))"

fun lines_loop ::
  "(nat \<Rightarrow> uuid) \<Rightarrow> LayoutDetectionOutput list \<Rightarrow> nat \<Rightarrow> Line list \<Rightarrow> result \<Rightarrow> nat
     \<Rightarrow> error + (result \<times> nat)" where
  "lines_loop gen layout page_number [] result n = Inr (result, n)"
| "lines_loop gen layout page_number (line # ls) result n =
     (case line_step gen layout page_number line result n of
        Inl e \<Rightarrow> Inl e
      | Inr (result', n') \<Rightarrow> lines_loop gen layout page_number ls result' n')"

text \<open>
  Lines 360 to 371: the body of \<^verbatim>\<open>for det in layout\<close>, which stores a block for a
  region labelled 6 or 8 under a key drawn from \<^verbatim>\<open>uuid.uuid4()\<close>.
\<close>

definition inject_step ::
  "(nat \<Rightarrow> uuid) \<Rightarrow> nat \<Rightarrow> LayoutDetectionOutput \<Rightarrow> result \<Rightarrow> nat
     \<Rightarrow> error + (result \<times> nat)" where
  "inject_step gen page_number det result n =
     (if det_label det \<in> set [6, 8]
      then (case to_numpy (det_bbox det) of (x0, y0, x1, y1) \<Rightarrow>
              (case block_cls_map (det_label det) of
                 None \<Rightarrow> Inl (KeyError (det_label det))
               | Some block_cls \<Rightarrow>
                   (case uuid4 gen n of (u, n') \<Rightarrow>
                      Inr (AList.update u
                             \<lparr>cls = block_cls, block_text = [], bbox = mk_bbox x0 y0 x1 y1,
                              metadata = [], page_range = (page_number, page_number)\<rparr>
                             result, n'))))
      else Inr (result, n))"

fun inject_loop ::
  "(nat \<Rightarrow> uuid) \<Rightarrow> nat \<Rightarrow> LayoutDetectionOutput list \<Rightarrow> result \<Rightarrow> nat
     \<Rightarrow> error + (result \<times> nat)" where
  "inject_loop gen page_number [] result n = Inr (result, n)"
| "inject_loop gen page_number (det # layout) result n =
     (case inject_step gen page_number det result n of
        Inl e \<Rightarrow> Inl e
      | Inr (result', n') \<Rightarrow> inject_loop gen page_number layout result' n')"

text \<open>
  Lines 326 to 371: \<^verbatim>\<open>for block in page.blocks\<close>. The loop over the layout is part
  of the body of this loop (it is indented under it), so it runs once for each
  recognised block of the page.
\<close>

fun blocks_loop ::
  "(nat \<Rightarrow> uuid) \<Rightarrow> LayoutDetectionOutput list \<Rightarrow> nat \<Rightarrow> DoctrBlock list \<Rightarrow> result \<Rightarrow> nat
     \<Rightarrow> error + (result \<times> nat)" where
  "blocks_loop gen layout page_number [] result n = Inr (result, n)"
| "blocks_loop gen layout page_number (block # bs) result n =
     (if length (lines block) \<noteq> 0 \<and> length (artefacts block) > 0
      then Inl (ValueError ''Block should not contain both lines and artefacts'')
      else (case lines_loop gen layout page_number (lines block) result n of
              Inl e \<Rightarrow> Inl e
            | Inr (result1, n1) \<Rightarrow>
                (case inject_loop gen page_number layout result1 n1 of
                   Inl e \<Rightarrow> Inl e
                 | Inr (result2, n2) \<Rightarrow> blocks_loop gen layout page_number bs result2 n2)))"

text \<open>The dictionary of one page when its blocks are done: \<^verbatim>\<open>result\<close> at line 372.\<close>

definition page_result ::
  "(nat \<Rightarrow> uuid) \<Rightarrow> nat \<Rightarrow> DoctrPage \<Rightarrow> LayoutDetectionOutput list \<Rightarrow> nat
     \<Rightarrow> error + (result \<times> nat)" where
  "page_result gen page_number page layout n =
     blocks_loop gen layout page_number (blocks page) [] n"

definition top_y :: "Block \<Rightarrow> real" where
  "top_y block = pt_y (top_left (bbox block))"

text \<open>
  Lines 372 to 374. \<^verbatim>\<open>sorted\<close> is a stable sort; \<open>sort_key\<close> is one too, and the
  result of a stable sort by a key is unique, so both return the same list.
\<close>

definition sorted_page_blocks :: "result \<Rightarrow> Block list" where
  "sorted_page_blocks result = sort_key top_y (map snd result)"

text \<open>
  Lines 322 to 376: \<^verbatim>\<open>enumerate(zip(pages, layouts, strict=True))\<close>. The pairs are
  processed in order; \<^verbatim>\<open>zip\<close> raises when one sequence ends before the other.
\<close>

fun pages_loop ::
  "(nat \<Rightarrow> uuid) \<Rightarrow> nat \<Rightarrow> DoctrPage list \<Rightarrow> LayoutDetectionOutput list list
     \<Rightarrow> Block list \<Rightarrow> nat \<Rightarrow> error + (Block list \<times> nat)" where
  "pages_loop gen page_number [] [] results n = Inr (results, n)"
| "pages_loop gen page_number (page # ps) (layout # ls) results n =
     (case page_result gen page_number page layout n of
        Inl e \<Rightarrow> Inl e
      | Inr (result, n') \<Rightarrow>
          pages_loop gen (Suc page_number) ps ls (results @ sorted_page_blocks result) n')"
| "pages_loop gen page_number (page # ps) [] results n =
     Inl (ValueError ''zip() argument 2 is shorter than argument 1'')"
| "pages_loop gen page_number [] (layout # ls) results n =
     Inl (ValueError ''zip() argument 2 is longer than argument 1'')"

text \<open>\<^verbatim>\<open>__to_elements_list\<close>.\<close>

definition to_elements_list ::
  "(nat \<Rightarrow> uuid) \<Rightarrow> Document \<Rightarrow> LayoutDetectionOutput list list \<Rightarrow> nat
     \<Rightarrow> error + MPDocument" where
  "to_elements_list gen doctr_document layouts n =
     (case pages_loop gen 0 (pages doctr_document) layouts [] n of
        Inl e \<Rightarrow> Inl e
      | Inr (results, n') \<Rightarrow>
          Inr \<lparr>doc_metadata = [], content = results, detection_origin = ''doctr''\<rparr>)"

subsection \<open>Vocabulary of the properties\<close>

text \<open>
  An identifier supply for \<^verbatim>\<open>uuid.uuid4()\<close> that never repeats: it counts up from
  a given identifier.
\<close>

definition supply_from :: "nat \<Rightarrow> nat \<Rightarrow> uuid" where
  "supply_from k n = k + n"

text \<open>The first box lies entirely inside the second.\<close>

definition bbox_inside :: "coords \<Rightarrow> coords \<Rightarrow> bool" where
  "bbox_inside c d =
     (case c of (x1, y1, x2, y2) \<Rightarrow> case d of (X1, Y1, X2, Y2) \<Rightarrow>
        X1 \<le> x1 \<and> Y1 \<le> y1 \<and> x2 \<le> X2 \<and> y2 \<le> Y2)"

abbreviation region :: "uuid \<Rightarrow> int \<Rightarrow> real \<Rightarrow> real \<Rightarrow> real \<Rightarrow> real \<Rightarrow> LayoutDetectionOutput" where
  "region i l x0 y0 x1 y1 \<equiv> \<lparr>bbox_id = i, det_bbox = mk_bbox x0 y0 x1 y1, det_label = l\<rparr>"

abbreviation one_word_line :: "string \<Rightarrow> real \<Rightarrow> real \<Rightarrow> real \<Rightarrow> real \<Rightarrow> Line" where
  "one_word_line t x0 y0 x1 y1 \<equiv>
     \<lparr>words = [((Py x0, Py y0), (Py x1, Py y1))], render = t\<rparr>"

abbreviation block_of :: "block_cls \<Rightarrow> string \<Rightarrow> real \<Rightarrow> real \<Rightarrow> real \<Rightarrow> real \<Rightarrow> nat \<Rightarrow> Block" where
  "block_of k t x0 y0 x1 y1 pn \<equiv>
     \<lparr>cls = k, block_text = t, bbox = mk_bbox x0 y0 x1 y1, metadata = [],
      page_range = (pn, pn)\<rparr>"

abbreviation document_of :: "Block list \<Rightarrow> MPDocument" where
  "document_of bs \<equiv> \<lparr>doc_metadata = [], content = bs, detection_origin = ''doctr''\<rparr>"

lemmas number_defs =
  vals_def python_floats_def numpy_scalars_def mk_num_def num_sub_def num_mul_def
  py_max2_def py_min2_def truediv_def

lemmas geometry_defs =
  bbox1_valid_def to_numpy_def mk_bbox_def detection_area_def union_area_def
  overlap_ratio_def bbox_inside_def region_coords_def number_defs

lemmas assembly_defs =
  to_elements_list_def page_result_def line_step_def line_coordinates_def
  block_cls_map_def accumulate_def inject_step_def uuid4_def sorted_page_blocks_def
  top_y_def newline_def supply_from_def

section \<open>Auxiliary facts\<close>

subsection \<open>The dictionary\<close>

lemma update_absent: "map_of r k = None \<Longrightarrow> AList.update k v r = r @ [(k, v)]"
  by (induction r) (auto split: if_splits)


lemma accumulate_new:
  "map_of result block_id = None \<Longrightarrow> issubclass_TextBlock k \<Longrightarrow>
     accumulate result block_id k t (x0, y0, x1, y1) pn =
       result @ [(block_id, \<lparr>cls = k, block_text = t, bbox = mk_bbox x0 y0 x1 y1,
                              metadata = [], page_range = (pn, pn)\<rparr>)]"
  by (simp add: accumulate_def update_absent)

lemma accumulate_merge:
  "map_of result block_id = Some b \<Longrightarrow>
     map_of (accumulate result block_id k t (x0, y0, x1, y1) pn) block_id =
       Some (b\<lparr>block_text := block_text b @ newline @ t,
               bbox := mk_bbox (min x0 (pt_x (top_left (bbox b))))
                               (min y0 (pt_y (top_left (bbox b))))
                               (max x1 (pt_x (bottom_right (bbox b))))
                               (max y1 (pt_y (bottom_right (bbox b))))\<rparr>)"
  by (simp add: accumulate_def to_numpy_def AList.update_conv')

lemma accumulate_then_merge:
  assumes "map_of result block_id = None" and "issubclass_TextBlock k"
  shows "map_of (accumulate (accumulate result block_id k t1 (a0, b0, a1, b1) pn)
                   block_id k' t2 (c0, d0, c1, d1) pn') block_id =
           Some \<lparr>cls = k, block_text = t1 @ newline @ t2,
                 bbox = mk_bbox (min c0 a0) (min d0 b0) (max c1 a1) (max d1 b1),
                 metadata = [], page_range = (pn, pn)\<rparr>"
proof -
  let ?b = "\<lparr>cls = k, block_text = t1, bbox = mk_bbox a0 b0 a1 b1,
              metadata = [], page_range = (pn, pn)\<rparr>"
  have "map_of (accumulate result block_id k t1 (a0, b0, a1, b1) pn) block_id = Some ?b"
    using assms by (simp add: accumulate_new map_add_def)
  from accumulate_merge [OF this] show ?thesis
    by (simp add: mk_bbox_def)
qed

subsection \<open>The matcher\<close>

lemma val_mk_num [simp]: "val (mk_num np r) = r"
  by (simp add: mk_num_def)

lemma val_py_max2 [simp]: "val (py_max2 a b) = max (val a) (val b)"
  by (simp add: py_max2_def max_def)

lemma val_py_min2 [simp]: "val (py_min2 a b) = min (val a) (val b)"
  by (simp add: py_min2_def min_def)

lemma val_num_sub [simp]: "val (num_sub a b) = val a - val b"
  by (simp add: num_sub_def)

lemma val_num_mul [simp]: "val (num_mul a b) = val a * val b"
  by (simp add: num_mul_def)

lemma vals_numpy_scalars [simp]: "vals (numpy_scalars c) = c"
  by (cases c) (simp add: vals_def numpy_scalars_def)

lemma vals_python_floats [simp]: "vals (python_floats c) = c"
  by (cases c) (simp add: vals_def python_floats_def)

lemma vals_region_coords [simp]: "vals (region_coords det) = to_numpy (det_bbox det)"
  by (simp add: region_coords_def)








text \<open>The injection of the regions never fails.\<close>

lemma inject_step_total:
  "\<exists>r m. inject_step gen pn det result n = Inr (r, m)"
  by (auto simp: inject_step_def block_cls_map_def uuid4_def split: prod.splits)

lemma inject_loop_total:
  "\<exists>r m. inject_loop gen pn layout result n = Inr (r, m)"
proof (induction layout arbitrary: result n)
  case Nil
  then show ?case by simp
next
  case (Cons det layout)
  obtain r m where "inject_step gen pn det result n = Inr (r, m)"
    using inject_step_total by blast
  with Cons [of r m] show ?case by simp
qed

subsection \<open>Failures propagate out of the loops\<close>

lemma line_coordinates_empty:
  "words line = [] \<Longrightarrow>
     line_coordinates line = Inl (ValueError ''min() arg is an empty sequence'')"
  by (simp add: line_coordinates_def)

lemma line_step_empty:
  "words line = [] \<Longrightarrow>
     line_step gen layout pn line result n = Inl (ValueError ''min() arg is an empty sequence'')"
  by (simp add: line_step_def line_coordinates_empty)

lemma lines_loop_bad_line:
  "line \<in> set ls \<Longrightarrow> words line = [] \<Longrightarrow> \<exists>e. lines_loop gen layout pn ls result n = Inl e"
proof (induction ls arbitrary: result n)
  case Nil
  then show ?case by simp
next
  case (Cons a ls)
  show ?case
  proof (cases "line_step gen layout pn a result n")
    case (Inl e)
    then show ?thesis by simp
  next
    case (Inr p)
    with Cons.prems have "a \<noteq> line" by (auto simp: line_step_empty)
    with Cons.prems have "line \<in> set ls" by simp
    with Cons.IH Cons.prems(2) Inr show ?thesis by (cases p) simp
  qed
qed

lemma blocks_loop_bad_line:
  "block \<in> set bs \<Longrightarrow> line \<in> set (lines block) \<Longrightarrow> words line = [] \<Longrightarrow>
     \<exists>e. blocks_loop gen layout pn bs result n = Inl e"
proof (induction bs arbitrary: result n)
  case Nil
  then show ?case by simp
next
  case (Cons a bs)
  show ?case
  proof (cases "a = block")
    case True
    obtain e where "lines_loop gen layout pn (lines block) result n = Inl e"
      using lines_loop_bad_line [OF Cons.prems(2,3)] by blast
    with True show ?thesis by simp
  next
    case False
    with Cons.prems have "block \<in> set bs" by simp
    from Cons.IH [OF this Cons.prems(2,3)] show ?thesis
      by (auto split: sum.splits)
  qed
qed

lemma blocks_loop_both:
  "block \<in> set bs \<Longrightarrow> lines block \<noteq> [] \<Longrightarrow> artefacts block \<noteq> [] \<Longrightarrow>
     \<exists>e. blocks_loop gen layout pn bs result n = Inl e"
proof (induction bs arbitrary: result n)
  case Nil
  then show ?case by simp
next
  case (Cons a bs)
  show ?case
  proof (cases "a = block")
    case True
    with Cons.prems show ?thesis by simp
  next
    case False
    with Cons.prems have "block \<in> set bs" by simp
    from Cons.IH [OF this Cons.prems(2,3)] show ?thesis
      by (auto split: sum.splits)
  qed
qed

lemma pages_loop_failing_page:
  assumes "page \<in> set ps"
    and "\<And>pn layout n. \<exists>e. page_result gen pn page layout n = Inl e"
  shows "\<exists>e. pages_loop gen pn ps ls results n = Inl e"
  using assms(1)
proof (induction ps arbitrary: pn ls results n)
  case Nil
  then show ?case by simp
next
  case (Cons p ps)
  show ?case
  proof (cases ls)
    case Nil
    then show ?thesis by simp
  next
    case (Cons layout ls')
    show ?thesis
    proof (cases "page_result gen pn p layout n")
      case (Inl e)
      with Cons show ?thesis by simp
    next
      case (Inr r)
      with assms(2) [of pn layout n] have "p \<noteq> page" by auto
      with Cons.prems have "page \<in> set ps" by simp
      from Cons.IH [OF this] Inr Cons show ?thesis
        by (cases r) simp
    qed
  qed
qed

subsection \<open>The pages in order\<close>

lemma pages_loop_segments:
  "pages_loop gen pn ps ls acc n = Inr (res, n') \<Longrightarrow>
     \<exists>segs. res = acc @ concat segs \<and> length segs = length ps \<and>
       (\<forall>i<length ps. \<exists>m r m'.
           page_result gen (pn + i) (ps ! i) (ls ! i) m = Inr (r, m')
           \<and> segs ! i = sorted_page_blocks r)"
proof (induction ps arbitrary: pn ls acc n)
  case Nil
  then show ?case by (cases ls) auto
next
  case (Cons p ps)
  then obtain layout ls' where ls: "ls = layout # ls'"
    by (cases ls) auto
  from Cons.prems ls obtain r n1 where
    pr: "page_result gen pn p layout n = Inr (r, n1)" and
    rest: "pages_loop gen (Suc pn) ps ls' (acc @ sorted_page_blocks r) n1 = Inr (res, n')"
    by (auto split: sum.splits)
  from Cons.IH [OF rest] obtain segs where
    res: "res = (acc @ sorted_page_blocks r) @ concat segs" and
    len: "length segs = length ps" and
    each: "\<forall>i<length ps. \<exists>m r' m'.
             page_result gen (Suc pn + i) (ps ! i) (ls' ! i) m = Inr (r', m')
             \<and> segs ! i = sorted_page_blocks r'"
    by blast
  let ?segs = "sorted_page_blocks r # segs"
  have "\<exists>m r' m'. page_result gen (pn + i) ((p # ps) ! i) (ls ! i) m = Inr (r', m')
          \<and> ?segs ! i = sorted_page_blocks r'" if "i < length (p # ps)" for i
  proof (cases i)
    case 0
    with pr ls show ?thesis by auto
  next
    case (Suc j)
    with that have "j < length ps" by simp
    with each Suc ls show ?thesis by auto
  qed
  with res len show ?case
    by (intro exI [of _ ?segs]) simp
qed

lemma sorted_page_blocks_sorted: "sorted (map top_y (sorted_page_blocks r))"
  by (simp add: sorted_page_blocks_def)

lemma sorted_page_blocks_stable:
  "filter (\<lambda>b. top_y b = y) (sorted_page_blocks r) = filter (\<lambda>b. top_y b = y) (map snd r)"
  by (simp add: sorted_page_blocks_def sort_key_stable)

section \<open>The claims\<close>

subsection \<open>C1: what a text line does to the page's blocks\<close>




subsection \<open>C2: image and table regions\<close>

text \<open>
  C2: the loop that adds the image and table blocks is part of the body of the loop
  over the recognised blocks of the page. A page without recognised blocks therefore
  yields no block for its image region, and a page with two recognised blocks yields
  two blocks for the one region.
\<close>

theorem image_region_once_per_recognised_block:
  "to_elements_list (supply_from 100) \<lparr>pages = [\<lparr>blocks = []\<rparr>]\<rparr>
     [ [region 7 6 0 50 200 150] ] 0 = Inr (document_of [])
   \<and> to_elements_list (supply_from 100)
       \<lparr>pages = [\<lparr>blocks = [\<lparr>lines = [], artefacts = []\<rparr>,
                             \<lparr>lines = [], artefacts = []\<rparr>]\<rparr>]\<rparr>
       [ [region 7 6 0 50 200 150] ] 0 =
     Inr (document_of [block_of ImageBlock [] 0 50 200 150 0,
                       block_of ImageBlock [] 0 50 200 150 0])"
  by (simp add: assembly_defs geometry_defs)

subsection \<open>C3: the matcher always returns a pair\<close>

text \<open>
  C3: the matcher does not return a pair for every line box. The line box
  \<open>(5, 5, 5, 5)\<close> is a point, so its area is the Python \<^verbatim>\<open>int\<close> 0 and so is the area
  of each intersection, whether the coordinates of the line are Python floats or numpy
  scalars. With a first region that does not touch the line and a second region that
  contains it, the division for the first region raises \<^verbatim>\<open>ZeroDivisionError\<close>: no
  ratio is computed, the second region is never looked at, and neither a region nor a
  fresh identifier with the undefined class is returned.
\<close>

theorem get_block_cls_point_box_raises:
  "get_block_cls (supply_from 100) (python_floats (5, 5, 5, 5))
     [region 1 1 20 20 30 30, region 2 10 0 0 10 10] (6 / 10) 0 = Inl ZeroDivisionError
   \<and> get_block_cls (supply_from 100) (numpy_scalars (5, 5, 5, 5))
       [region 1 1 20 20 30 30, region 2 10 0 0 10 10] (6 / 10) 0 = Inl ZeroDivisionError"
  by (simp add: geometry_defs)

subsection \<open>C4: two lines under one identifier\<close>

text \<open>
  C4: when an identifier that is not yet a key receives a line with text \<open>t1\<close> and
  then a line with text \<open>t2\<close>, and the class of the first is a text class, the block
  stored under it has the text \<open>t1\<close>, a newline, \<open>t2\<close>, and its box is the
  component-wise union of the two line boxes (minimum of the top-left corners, maximum
  of the bottom-right corners). In the opposite order the text is \<open>t2\<close>, a newline,
  \<open>t1\<close>, and the box is the same.
\<close>

theorem accumulate_two_lines:
  assumes "map_of result block_id = None" and "issubclass_TextBlock k"
  shows "map_of (accumulate (accumulate result block_id k t1 (a0, b0, a1, b1) pn)
                   block_id k' t2 (c0, d0, c1, d1) pn') block_id =
           Some \<lparr>cls = k, block_text = t1 @ newline @ t2,
                 bbox = mk_bbox (min a0 c0) (min b0 d0) (max a1 c1) (max b1 d1),
                 metadata = [], page_range = (pn, pn)\<rparr>
       \<and> map_of (accumulate (accumulate result block_id k t2 (c0, d0, c1, d1) pn)
                   block_id k' t1 (a0, b0, a1, b1) pn') block_id =
           Some \<lparr>cls = k, block_text = t2 @ newline @ t1,
                 bbox = mk_bbox (min a0 c0) (min b0 d0) (max a1 c1) (max b1 d1),
                 metadata = [], page_range = (pn, pn)\<rparr>"
  using accumulate_then_merge [OF assms, of t1 a0 b0 a1 b1 pn k' t2 c0 d0 c1 d1 pn']
    accumulate_then_merge [OF assms, of t2 c0 d0 c1 d1 pn k' t1 a0 b0 a1 b1 pn']
  by (simp add: min.commute max.commute)

theorem accumulate_two_lines_witness:
  "map_of ([] :: result) 7 = None \<and> issubclass_TextBlock TitleBlock
   \<and> map_of (accumulate (accumulate [] 7 TitleBlock ''Hello'' (5, 2, 95, 10) 0)
                7 TitleBlock ''World'' (5, 11, 95, 19) 0) 7
       = Some (block_of TitleBlock (''Hello'' @ newline @ ''World'') 5 2 95 19 0)
   \<and> map_of (accumulate (accumulate [] 7 TitleBlock ''World'' (5, 11, 95, 19) 0)
                7 TitleBlock ''Hello'' (5, 2, 95, 10) 0) 7
       = Some (block_of TitleBlock (''World'' @ newline @ ''Hello'') 5 2 95 19 0)"
proof -
  have h1: "map_of ([] :: result) 7 = None" by simp
  have h2: "issubclass_TextBlock TitleBlock" by simp
  from accumulate_two_lines [OF h1 h2, of "''Hello''" 5 2 95 10 0 TitleBlock "''World''"
      5 11 95 19 0] h2
  show ?thesis by simp
qed

subsection \<open>C5: a line box of zero area\<close>

text \<open>
  C5: the matcher accepts a line box of zero area (its assertion is \<open>x1 \<le> x2\<close> and
  \<open>y1 \<le> y2\<close>) and then divides by that area. With the line box
  \<open>(0, 0, 0, 0)\<close> and one region the division fails, whether the coordinates of
  the line are Python floats or numpy scalars: both areas are the Python \<^verbatim>\<open>int\<close> 0,
  the matcher raises \<^verbatim>\<open>ZeroDivisionError\<close> and does not fall through to the
  undefined block.
\<close>

theorem get_block_cls_zero_area_line:
  "get_block_cls (supply_from 100) (python_floats (0, 0, 0, 0)) [region 7 1 0 0 10 10]
     (6 / 10) 0 = Inl ZeroDivisionError
   \<and> get_block_cls (supply_from 100) (numpy_scalars (0, 0, 0, 0)) [region 7 1 0 0 10 10]
       (6 / 10) 0 = Inl ZeroDivisionError"
  by (simp add: geometry_defs)

subsection \<open>C6: reading order\<close>

text \<open>
  C6: when the assembly returns a document, its content is the concatenation of one
  segment per page, in the order of the pages. Each segment is sorted by ascending
  top edge, and for every value of the top edge the blocks with that top edge stand
  in the segment in the order in which they stand in the page's dictionary, which
  holds the accumulated and the injected blocks in insertion order.
\<close>

theorem content_sorted_per_page:
  assumes "to_elements_list gen doc layouts n = Inr d"
  shows "\<exists>segs. content d = concat segs \<and> length segs = length (pages doc) \<and>
     (\<forall>i<length (pages doc).
        sorted (map top_y (segs ! i)) \<and>
        (\<exists>m r m'. page_result gen i (pages doc ! i) (layouts ! i) m = Inr (r, m') \<and>
           (\<forall>y. filter (\<lambda>b. top_y b = y) (segs ! i) =
                filter (\<lambda>b. top_y b = y) (map snd r))))"
proof -
  from assms obtain res n' where
    loop: "pages_loop gen 0 (pages doc) layouts [] n = Inr (res, n')" and
    d: "content d = res"
    by (auto simp: to_elements_list_def split: sum.splits)
  from pages_loop_segments [OF loop] obtain segs where
    res: "res = concat segs" and len: "length segs = length (pages doc)" and
    each: "\<forall>i<length (pages doc). \<exists>m r m'.
             page_result gen i (pages doc ! i) (layouts ! i) m = Inr (r, m')
             \<and> segs ! i = sorted_page_blocks r"
    by auto
  have "sorted (map top_y (segs ! i)) \<and>
        (\<exists>m r m'. page_result gen i (pages doc ! i) (layouts ! i) m = Inr (r, m') \<and>
           (\<forall>y. filter (\<lambda>b. top_y b = y) (segs ! i) =
                filter (\<lambda>b. top_y b = y) (map snd r)))"
    if "i < length (pages doc)" for i
  proof -
    from each that obtain m r m' where
      pr: "page_result gen i (pages doc ! i) (layouts ! i) m = Inr (r, m')" and
      seg: "segs ! i = sorted_page_blocks r"
      by blast
    show ?thesis
      using pr by (auto simp: seg sorted_page_blocks_sorted sorted_page_blocks_stable)
  qed
  with d res len show ?thesis by blast
qed

theorem content_sorted_per_page_witness:
  "to_elements_list (supply_from 100)
     \<lparr>pages = [\<lparr>blocks = [\<lparr>lines = [one_word_line ''low'' 0 30 10 40,
                                     one_word_line ''high'' 0 0 10 10],
                            artefacts = []\<rparr>]\<rparr>]\<rparr>
     [ [] ] 0 =
     Inr (document_of [block_of UndefinedBlock ''high'' 0 0 10 10 0,
                       block_of UndefinedBlock ''low'' 0 30 10 40 0])
   \<and> (\<exists>segs.
        content (document_of [block_of UndefinedBlock ''high'' 0 0 10 10 0,
                              block_of UndefinedBlock ''low'' 0 30 10 40 0]) = concat segs
        \<and> length segs =
            length (pages \<lparr>pages = [\<lparr>blocks = [\<lparr>lines = [one_word_line ''low'' 0 30 10 40,
                                     one_word_line ''high'' 0 0 10 10],
                            artefacts = []\<rparr>]\<rparr>]\<rparr>))"
proof -
  have h: "to_elements_list (supply_from 100)
     \<lparr>pages = [\<lparr>blocks = [\<lparr>lines = [one_word_line ''low'' 0 30 10 40,
                                     one_word_line ''high'' 0 0 10 10],
                            artefacts = []\<rparr>]\<rparr>]\<rparr>
     [ [] ] 0 =
     Inr (document_of [block_of UndefinedBlock ''high'' 0 0 10 10 0,
                       block_of UndefinedBlock ''low'' 0 30 10 40 0])"
    by (simp add: assembly_defs geometry_defs)
  from content_sorted_per_page [OF h] h show ?thesis
    by blast
qed

subsection \<open>C7: text lines and injection for one region\<close>

text \<open>
  C7, as stated, does not hold: no error is raised when text lines are matched to a
  region that is also injected. On a page whose two lines lie inside a table region,
  both lines are matched to the identifier of that region and the region is injected;
  the assembly returns a document that holds the table block only, with empty text.
  The injected block is silently preferred to the text.
\<close>

theorem lines_in_table_region_counterexample:
  "to_elements_list (supply_from 100)
     \<lparr>pages = [\<lparr>blocks = [\<lparr>lines = [one_word_line ''a'' 10 10 90 20,
                                     one_word_line ''b'' 10 30 90 40],
                            artefacts = []\<rparr>]\<rparr>]\<rparr>
     [ [region 7 8 0 0 100 50] ] 0 =
   Inr (document_of [block_of TableBlock [] 0 0 100 50 0])"
  by (simp add: assembly_defs geometry_defs)

text \<open>
  C7, amended: when the lines of a recognised block are matched to image or table
  regions under identifiers that are not keys of the page's dictionary, no error is
  raised for the conflict. The lines are skipped: the loop over them returns the
  dictionary and the supply as they were. The injection that follows never raises; it
  stores a region labelled 6 or 8 under the next identifier of the supply, not under
  the region's identifier, and when that identifier is not yet a key the blocks of the
  dictionary are kept as they are and the image or table block, with empty text and
  the region's box, is added after them.
\<close>

theorem non_text_region_wins:
  assumes "\<forall>line \<in> set ls. \<exists>c block_id k.
             line_coordinates line = Inr c
             \<and> get_block_cls gen c layout (6 / 10) n = Inr ((block_id, k), n)
             \<and> \<not> issubclass_TextBlock k \<and> map_of result block_id = None"
  shows "lines_loop gen layout pn ls result n = Inr (result, n)
     \<and> (\<exists>r m. inject_loop gen pn layout result n = Inr (r, m))
     \<and> (\<forall>det. (det_label det = 6 \<or> det_label det = 8) \<longrightarrow> map_of result (gen n) = None \<longrightarrow>
           inject_step gen pn det result n =
             Inr (result @ [(gen n,
                    \<lparr>cls = (if det_label det = 6 then ImageBlock else TableBlock),
                     block_text = [], bbox = det_bbox det,
                     metadata = [], page_range = (pn, pn)\<rparr>)], Suc n))"
proof -
  from assms have "lines_loop gen layout pn ls result n = Inr (result, n)"
  proof (induction ls)
    case Nil
    then show ?case by simp
  next
    case (Cons line ls)
    from Cons.prems obtain c block_id k where
      "line_coordinates line = Inr c"
      "get_block_cls gen c layout (6 / 10) n = Inr ((block_id, k), n)"
      "\<not> issubclass_TextBlock k" "map_of result block_id = None"
      by auto
    then have "line_step gen layout pn line result n = Inr (result, n)"
      by (cases "vals c") (simp add: line_step_def accumulate_def)
    with Cons show ?case by simp
  qed
  moreover have "inject_step gen pn det result n =
          Inr (result @ [(gen n,
                 \<lparr>cls = (if det_label det = 6 then ImageBlock else TableBlock),
                  block_text = [], bbox = det_bbox det,
                  metadata = [], page_range = (pn, pn)\<rparr>)], Suc n)"
    if "det_label det = 6 \<or> det_label det = 8" and "map_of result (gen n) = None" for det
    using that
    by (auto simp: inject_step_def block_cls_map_def uuid4_def update_absent to_numpy_def
          mk_bbox_def split: prod.splits)
  ultimately show ?thesis
    using inject_loop_total [of gen pn layout result n] by blast
qed

theorem non_text_region_wins_witness:
  "lines_loop (supply_from 100) [region 7 8 0 0 100 50] 0
     [one_word_line ''a'' 10 10 90 20, one_word_line ''b'' 10 30 90 40] [] 0 = Inr ([], 0)
   \<and> inject_step (supply_from 100) 0 (region 7 8 0 0 100 50) [] 0 =
       Inr ([(100, block_of TableBlock [] 0 0 100 50 0)], 1)"
proof -
  have h: "\<forall>line \<in> set [one_word_line ''a'' 10 10 90 20, one_word_line ''b'' 10 30 90 40].
             \<exists>c block_id k.
               line_coordinates line = Inr c
               \<and> get_block_cls (supply_from 100) c [region 7 8 0 0 100 50] (6 / 10) 0
                   = Inr ((block_id, k), 0)
               \<and> \<not> issubclass_TextBlock k \<and> map_of ([] :: result) block_id = None"
    by (simp add: line_coordinates_def geometry_defs block_cls_map_def)
  from non_text_region_wins [OF h, of 0] show ?thesis
    by (simp add: supply_from_def mk_bbox_def)
qed

subsection \<open>C8: a line without words\<close>

text \<open>
  C8: a line whose list of words is empty has no box, and processing it raises the
  \<^verbatim>\<open>ValueError\<close> of \<^verbatim>\<open>min\<close> on an empty sequence, whatever the layout and the blocks
  collected so far: it is neither skipped nor given a box. A document that holds such
  a line in some block of some page is never assembled: the assembly ends in an error.
\<close>

theorem empty_word_list_fails:
  assumes "words line = []"
  shows "line_step gen layout pn line result n =
           Inl (ValueError ''min() arg is an empty sequence'')
         \<and> (\<forall>page block. page \<in> set (pages doc) \<longrightarrow> block \<in> set (blocks page) \<longrightarrow>
               line \<in> set (lines block) \<longrightarrow>
               (\<exists>e. to_elements_list gen doc layouts m = Inl e))"
proof -
  have "\<exists>e. to_elements_list gen doc layouts m = Inl e"
    if page: "page \<in> set (pages doc)" and block: "block \<in> set (blocks page)"
      and line: "line \<in> set (lines block)" for page block
  proof -
    have "\<exists>e. page_result gen k page l j = Inl e" for k l j
      unfolding page_result_def
      by (rule blocks_loop_bad_line [OF block line assms])
    from pages_loop_failing_page [OF page this]
    obtain e where "pages_loop gen 0 (pages doc) layouts [] m = Inl e"
      by blast
    then show ?thesis by (simp add: to_elements_list_def)
  qed
  with line_step_empty [OF assms] show ?thesis by blast
qed

theorem empty_word_list_fails_witness:
  "words \<lparr>words = [], render = ''x''\<rparr> = []
   \<and> line_step (supply_from 100) [] 0 \<lparr>words = [], render = ''x''\<rparr> [] 0 =
       Inl (ValueError ''min() arg is an empty sequence'')
   \<and> (\<exists>e. to_elements_list (supply_from 100)
             \<lparr>pages = [\<lparr>blocks = [\<lparr>lines = [one_word_line ''a'' 0 0 10 10,
                                             \<lparr>words = [], render = ''x''\<rparr>],
                                    artefacts = []\<rparr>]\<rparr>]\<rparr>
             [ [] ] 0 = Inl e)"
proof -
  have h: "words \<lparr>words = [], render = ''x''\<rparr> = []" by simp
  from empty_word_list_fails [OF h, of "supply_from 100" "[]" 0 "[]" 0
      "\<lparr>pages = [\<lparr>blocks = [\<lparr>lines = [one_word_line ''a'' 0 0 10 10,
                                             \<lparr>words = [], render = ''x''\<rparr>],
                                    artefacts = []\<rparr>]\<rparr>]\<rparr>" "[ [] ]" 0]
  show ?thesis by simp
qed

subsection \<open>C9: a line inside a region\<close>




subsection \<open>C10: a recognised block with lines and artefacts\<close>

text \<open>
  C10: a recognised block that has at least one line and at least one artefact makes
  the loop over the blocks raise \<^verbatim>\<open>ValueError\<close> with the message
  \<open>Block should not contain both lines and artefacts\<close> as soon as it reaches the
  block, whatever its lines are, whatever the layout regions are and whatever has been
  collected so far. A document that holds such a block in some page is never
  assembled: the assembly ends in an error.
\<close>

theorem block_with_lines_and_artefacts_fails:
  assumes "lines block \<noteq> []" and "artefacts block \<noteq> []"
  shows "blocks_loop gen layout pn (block # bs) result n =
           Inl (ValueError ''Block should not contain both lines and artefacts'')
         \<and> (\<forall>page. page \<in> set (pages doc) \<longrightarrow> block \<in> set (blocks page) \<longrightarrow>
               (\<exists>e. to_elements_list gen doc layouts m = Inl e))"
proof -
  have "\<exists>e. to_elements_list gen doc layouts m = Inl e"
    if page: "page \<in> set (pages doc)" and block: "block \<in> set (blocks page)" for page
  proof -
    have "\<exists>e. page_result gen k page l j = Inl e" for k l j
      unfolding page_result_def
      by (rule blocks_loop_both [OF block assms])
    from pages_loop_failing_page [OF page this]
    obtain e where "pages_loop gen 0 (pages doc) layouts [] m = Inl e"
      by blast
    then show ?thesis by (simp add: to_elements_list_def)
  qed
  with assms show ?thesis by simp
qed

theorem block_with_lines_and_artefacts_fails_witness:
  "lines \<lparr>lines = [\<lparr>words = [], render = ''x''\<rparr>], artefacts = [((Py 0, Py 0), (Py 1, Py 1))]\<rparr> \<noteq> []
   \<and> artefacts \<lparr>lines = [\<lparr>words = [], render = ''x''\<rparr>], artefacts = [((Py 0, Py 0), (Py 1, Py 1))]\<rparr> \<noteq> []
   \<and> blocks_loop (supply_from 100) [region 7 6 0 50 200 150] 0
        [\<lparr>lines = [\<lparr>words = [], render = ''x''\<rparr>], artefacts = [((Py 0, Py 0), (Py 1, Py 1))]\<rparr>] [] 0 =
       Inl (ValueError ''Block should not contain both lines and artefacts'')
   \<and> (\<exists>e. to_elements_list (supply_from 100)
             \<lparr>pages = [\<lparr>blocks = [\<lparr>lines = [\<lparr>words = [], render = ''x''\<rparr>],
                                    artefacts = [((Py 0, Py 0), (Py 1, Py 1))]\<rparr>]\<rparr>]\<rparr>
             [ [region 7 6 0 50 200 150] ] 0 = Inl e)"
proof -
  have h1: "lines \<lparr>lines = [\<lparr>words = [], render = ''x''\<rparr>],
                   artefacts = [((Py 0, Py 0), (Py 1, Py 1))]\<rparr> \<noteq> []"
    by simp
  have h2: "artefacts \<lparr>lines = [\<lparr>words = [], render = ''x''\<rparr>],
                       artefacts = [((Py 0, Py 0), (Py 1, Py 1))]\<rparr> \<noteq> []"
    by simp
  from block_with_lines_and_artefacts_fails [OF h1 h2, of "supply_from 100"
      "[region 7 6 0 50 200 150]" 0 "[]" "[]" 0
      "\<lparr>pages = [\<lparr>blocks = [\<lparr>lines = [\<lparr>words = [], render = ''x''\<rparr>],
                                    artefacts = [((Py 0, Py 0), (Py 1, Py 1))]\<rparr>]\<rparr>]\<rparr>"
      "[ [region 7 6 0 50 200 150] ]" 0]
  show ?thesis by simp
qed

end
